theory Spec2Isabelle
  imports Main "HOL-Library.Word"
begin

unbundle bit_operations_syntax

section \<open>The seat global (src/server/seat_interface.cpp)\<close>

subsection \<open>Data\<close>

text \<open>
  A \<open>wl_client\<close> is a connection; a \<open>wl_resource\<close> is the binding of one global by one
  connection. The library that allocates resources is not part of the repository: a
  resource is modelled by the three values \<open>wl_resource_create\<close> is given (the
  connection, the version as a C \<open>int\<close>, the object id), which is all the seat reads
  back from it.
\<close>

type_synonym wl_client = nat
type_synonym uint32_t = "32 word"

record wl_resource =
  res_client :: wl_client
  res_version :: int
  res_id :: uint32_t

text \<open>
  What the seat writes to its connections, in the order written:
  \<open>wl_seat_send_capabilities(r, capabilities)\<close>, \<open>wl_seat_send_name(r, name)\<close> and
  \<open>wl_client_post_no_memory(client)\<close>, the fatal out-of-memory error of the display
  protocol, after which the library disconnects the client.
\<close>

datatype wl_event =
  Capabilities wl_resource uint32_t
| Name wl_resource string
| NoMemory wl_client

text \<open>
  \<open>SeatInterface::Private\<close>: the members the bind and broadcast paths read and write,
  and the log of events sent (\<open>wire\<close>). The pointer and keyboard sub-objects, the
  timestamp and the pointer position take no part in them.
\<close>

record seat_private =
  name :: string
  pointer :: bool
  keyboard :: bool
  touch :: bool
  resources :: "wl_resource list"
  wire :: "wl_event list"

text \<open>
  A seat as the constructor leaves it: the default member initialisers of the class and
  an empty list of resources.
\<close>

definition seat_private_init :: seat_private where
  "seat_private_init =
     \<lparr>name = [], pointer = False, keyboard = False, touch = False,
      resources = [], wire = []\<rparr>"

subsection \<open>Constants\<close>

definition s_version :: uint32_t where
  "s_version = 3"

definition WL_SEAT_NAME_SINCE_VERSION :: int where
  "WL_SEAT_NAME_SINCE_VERSION = 2"

text \<open>
  The capability bits are declared in the protocol header \<open>wayland-server.h\<close>, which
  is outside the repository; they are the values of the \<open>wl_seat.capability\<close>
  enumeration of the core protocol.
\<close>

definition WL_SEAT_CAPABILITY_POINTER :: uint32_t where
  "WL_SEAT_CAPABILITY_POINTER = 1"

definition WL_SEAT_CAPABILITY_KEYBOARD :: uint32_t where
  "WL_SEAT_CAPABILITY_KEYBOARD = 2"

definition WL_SEAT_CAPABILITY_TOUCH :: uint32_t where
  "WL_SEAT_CAPABILITY_TOUCH = 4"

subsection \<open>Library calls\<close>

text \<open>
  \<open>wl_resource_create\<close> returns a null pointer when it cannot allocate; whether it can
  is decided by the environment (\<open>mem\<close>). The version parameter is a C \<open>int\<close>.
\<close>

definition wl_resource_create ::
  "bool \<Rightarrow> wl_client \<Rightarrow> int \<Rightarrow> uint32_t \<Rightarrow> wl_resource option" where
  "wl_resource_create mem client version ident =
     (if mem then Some \<lparr>res_client = client, res_version = version, res_id = ident\<rparr>
      else None)"

definition wl_resource_get_version :: "wl_resource \<Rightarrow> int" where
  "wl_resource_get_version r = res_version r"

definition wl_seat_send_capabilities ::
  "wl_resource \<Rightarrow> uint32_t \<Rightarrow> seat_private \<Rightarrow> seat_private" where
  "wl_seat_send_capabilities r capabilities d =
     d\<lparr>wire := wire d @ [Capabilities r capabilities]\<rparr>"

definition wl_seat_send_name :: "wl_resource \<Rightarrow> string \<Rightarrow> seat_private \<Rightarrow> seat_private" where
  "wl_seat_send_name r n d = d\<lparr>wire := wire d @ [Name r n]\<rparr>"

definition wl_client_post_no_memory :: "wl_client \<Rightarrow> seat_private \<Rightarrow> seat_private" where
  "wl_client_post_no_memory client d = d\<lparr>wire := wire d @ [NoMemory client]\<rparr>"

subsection \<open>Operations\<close>

definition sendName :: "wl_resource \<Rightarrow> seat_private \<Rightarrow> seat_private" where
  "sendName r d =
     (if wl_resource_get_version r < WL_SEAT_NAME_SINCE_VERSION then d
      else wl_seat_send_name r (name d) d)"

definition sendCapabilities :: "wl_resource \<Rightarrow> seat_private \<Rightarrow> seat_private" where
  "sendCapabilities r d =
     (let c0 = (0 :: uint32_t);
          c1 = (if pointer d then c0 OR WL_SEAT_CAPABILITY_POINTER else c0);
          c2 = (if keyboard d then c1 OR WL_SEAT_CAPABILITY_KEYBOARD else c1);
          c3 = (if touch d then c2 OR WL_SEAT_CAPABILITY_TOUCH else c2)
      in wl_seat_send_capabilities r c3 d)"

text \<open>
  \<open>bind\<close>: the version handed to the library is \<open>qMin(s_version, version)\<close>, an
  unsigned minimum, converted to \<open>int\<close>.
\<close>

definition bind ::
  "bool \<Rightarrow> wl_client \<Rightarrow> uint32_t \<Rightarrow> uint32_t \<Rightarrow> seat_private \<Rightarrow> seat_private" where
  "bind mem client version ident d =
     (case wl_resource_create mem client (uint (min s_version version)) ident of
        None \<Rightarrow> wl_client_post_no_memory client d
      | Some r \<Rightarrow> sendName r (sendCapabilities r (d\<lparr>resources := resources d @ [r]\<rparr>)))"

definition unbind :: "wl_resource \<Rightarrow> seat_private \<Rightarrow> seat_private" where
  "unbind r d = d\<lparr>resources := removeAll r (resources d)\<rparr>"

text \<open>
  The constructor connects \<open>nameChanged\<close> to a loop of \<open>sendName\<close> over the resources,
  and the three \<open>has...Changed\<close> signals to the same loop of \<open>sendCapabilities\<close>.
\<close>

definition sendNameAll :: "seat_private \<Rightarrow> seat_private" where
  "sendNameAll d = fold sendName (resources d) d"

definition sendCapabilitiesAll :: "seat_private \<Rightarrow> seat_private" where
  "sendCapabilitiesAll d = fold sendCapabilities (resources d) d"

definition setHasKeyboard :: "bool \<Rightarrow> seat_private \<Rightarrow> seat_private" where
  "setHasKeyboard has d =
     (if keyboard d = has then d else sendCapabilitiesAll (d\<lparr>keyboard := has\<rparr>))"

definition setHasPointer :: "bool \<Rightarrow> seat_private \<Rightarrow> seat_private" where
  "setHasPointer has d =
     (if pointer d = has then d else sendCapabilitiesAll (d\<lparr>pointer := has\<rparr>))"

definition setHasTouch :: "bool \<Rightarrow> seat_private \<Rightarrow> seat_private" where
  "setHasTouch has d =
     (if touch d = has then d else sendCapabilitiesAll (d\<lparr>touch := has\<rparr>))"

definition setName :: "string \<Rightarrow> seat_private \<Rightarrow> seat_private" where
  "setName n d = (if name d = n then d else sendNameAll (d\<lparr>name := n\<rparr>))"

text \<open>
  The union of the enabled capability flags, as the protocol describes the payload of
  the capabilities event; \<open>sendCapabilities\<close> is compared with it below.
\<close>

definition enabled_flags :: "bool \<Rightarrow> bool \<Rightarrow> bool \<Rightarrow> uint32_t" where
  "enabled_flags p k t =
     (if p then WL_SEAT_CAPABILITY_POINTER else 0)
     OR (if k then WL_SEAT_CAPABILITY_KEYBOARD else 0)
     OR (if t then WL_SEAT_CAPABILITY_TOUCH else 0)"

text \<open>
  The calls a seat receives during its life, and a run of them from the constructed
  seat. \<open>Bind\<close> carries the outcome of the allocation.
\<close>

datatype seat_call =
  Bind bool wl_client uint32_t uint32_t
| Unbind wl_resource
| SetName string
| SetHasPointer bool
| SetHasKeyboard bool
| SetHasTouch bool

fun seat_step :: "seat_call \<Rightarrow> seat_private \<Rightarrow> seat_private" where
  "seat_step (Bind mem client version ident) d = bind mem client version ident d"
| "seat_step (Unbind r) d = unbind r d"
| "seat_step (SetName n) d = setName n d"
| "seat_step (SetHasPointer has) d = setHasPointer has d"
| "seat_step (SetHasKeyboard has) d = setHasKeyboard has d"
| "seat_step (SetHasTouch has) d = setHasTouch has d"

definition seat_run :: "seat_call list \<Rightarrow> seat_private" where
  "seat_run calls = fold seat_step calls seat_private_init"

fun is_name_event :: "wl_event \<Rightarrow> bool" where
  "is_name_event (Name r n) = True"
| "is_name_event e = False"

text \<open>A name event is well versioned when its resource is at the version that has it.\<close>

fun name_event_versioned :: "wl_event \<Rightarrow> bool" where
  "name_event_versioned (Name r n) = (WL_SEAT_NAME_SINCE_VERSION \<le> res_version r)"
| "name_event_versioned e = True"

text \<open>
  A seat with a pointer and a keyboard and two bound resources, one at version 3 and
  one at version 1.
\<close>

definition seat_example :: seat_private where
  "seat_example =
     \<lparr>name = ''seat0'', pointer = True, keyboard = True, touch = False,
      resources = [\<lparr>res_client = 1, res_version = 3, res_id = 7\<rparr>,
                   \<lparr>res_client = 2, res_version = 1, res_id = 4\<rparr>],
      wire = []\<rparr>"

section \<open>The sub-surface (src/server/subsurface_interface_p.h)\<close>

text \<open>
  \<open>SubSurfaceInterface::Private\<close> and its default member initialisers. \<open>QPoint()\<close> is
  the null point of the toolkit, with both coordinates zero. The two surfaces are
  guarded pointers, null until \<open>create\<close> sets them.
\<close>

datatype Mode = Synchronized | Desynchronized

record QPoint =
  xp :: int
  yp :: int

definition QPoint_null :: QPoint where
  "QPoint_null = \<lparr>xp = 0, yp = 0\<rparr>"

record subsurface_private =
  pos :: QPoint
  scheduledPos :: QPoint
  scheduledPosChange :: bool
  mode :: Mode
  subSurface :: "wl_resource option"
  surface :: "nat option"
  parent :: "nat option"

definition subsurface_private_init :: subsurface_private where
  "subsurface_private_init =
     \<lparr>pos = \<lparr>xp = 0, yp = 0\<rparr>, scheduledPos = QPoint_null, scheduledPosChange = False,
      mode = Synchronized, subSurface = None, surface = None, parent = None\<rparr>"

section \<open>The window replica model (client side)\<close>

text \<open>
  The source of the model, \<open>src/client/plasmawindowmodel.cpp\<close>, is missing; its
  test, \<open>autotests/client/test_plasma_window_model.cpp\<close>, is present. The
  roles and their default values are those of the test's tables
  (\<open>testRoleNames_data\<close>, \<open>testDefaultData_data\<close>); the operations follow the contract
  of the specification, section 4.3.
\<close>

subsection \<open>Roles and values\<close>

datatype role =
  DisplayRole | DecorationRole | AppId | IsActive | IsFullscreenable | IsFullscreen
| IsMaximizable | IsMaximized | IsMinimizable | IsMinimized | IsKeepAbove | IsKeepBelow
| VirtualDesktop | IsOnAllDesktops | IsDemandingAttention | SkipTaskbar | IsShadeable
| IsShaded | IsMovable | IsResizable

definition all_roles :: "role list" where
  "all_roles =
     [DisplayRole, DecorationRole, AppId, IsActive, IsFullscreenable, IsFullscreen,
      IsMaximizable, IsMaximized, IsMinimizable, IsMinimized, IsKeepAbove, IsKeepBelow,
      VirtualDesktop, IsOnAllDesktops, IsDemandingAttention, SkipTaskbar, IsShadeable,
      IsShaded, IsMovable, IsResizable]"

text \<open>
  The values a role can hold: a string, an icon (by its name; the null icon has the
  empty name), an integer or a boolean.
\<close>

datatype variant = VString string | VIcon string | VInt int | VBool bool

text \<open>
  Modelled from the spec: the source of \<open>PlasmaWindowModel::data\<close> is missing. "Defaults
  before any update are empty-string/zero/false for the respective types"; the types
  of the roles are those of \<open>testDefaultData_data\<close>.
\<close>

fun role_default :: "role \<Rightarrow> variant" where
  "role_default DisplayRole = VString []"
| "role_default DecorationRole = VIcon []"
| "role_default AppId = VString []"
| "role_default VirtualDesktop = VInt 0"
| "role_default r = VBool False"

text \<open>
  Modelled from the spec: the source of the toggle requests is missing. The "current
  corresponding boolean attribute" of an item, read from the value of its role; a
  value that is not a boolean reads as false.
\<close>

fun toBool :: "variant \<Rightarrow> bool" where
  "toBool (VBool b) = b"
| "toBool v = False"

subsection \<open>Items, notifications, requests\<close>

text \<open>
  Modelled from the spec: the source of the item (\<open>PlasmaWindow\<close>) is missing. An
  item has a stable identifier, a value for each role, and the set of updates
  buffered since the last done marker.
\<close>

record window_item =
  window_id :: nat
  attrs :: "role \<Rightarrow> variant"
  pending :: "role \<Rightarrow> variant option"

text \<open>
  Modelled from the spec: the handler of the window-created event is missing. A new
  item has "all default attribute values", and nothing is buffered for it.
\<close>

definition new_window :: "nat \<Rightarrow> window_item" where
  "new_window w = \<lparr>window_id = w, attrs = role_default, pending = (\<lambda>r. None)\<rparr>"

text \<open>
  The notifications the model emits (\<open>rowsInserted\<close>, \<open>rowsRemoved\<close>, \<open>dataChanged\<close>
  with the row and the changed roles) and the requests it forwards to the server, each
  with the identifier of the window and the payload the test reads.
\<close>

datatype notification =
  RowsInserted nat
| RowsRemoved nat
| DataChanged nat "role set"

datatype request =
  RequestActivate nat
| RequestClose nat
| RequestMove nat
| RequestResize nat
| RequestVirtualDesktop nat uint32_t
| RequestMinimized nat bool
| RequestMaximized nat bool
| RequestShaded nat bool

text \<open>
  Modelled from the spec: the class \<open>PlasmaWindowModel\<close> is missing. The "ordered
  sequence" of the items, with the notifications emitted and the requests forwarded so
  far, in the order they were made.
\<close>

record window_model =
  windows :: "window_item list"
  notifications :: "notification list"
  requests :: "request list"


subsection \<open>Queries\<close>

text \<open>
  Modelled from the spec: \<open>PlasmaWindowModel::rowCount\<close> is missing. The number of
  items of the sequence.
\<close>

definition rowCount :: "window_model \<Rightarrow> int" where
  "rowCount m = int (length (windows m))"

text \<open>
  Modelled from the spec: \<open>PlasmaWindowModel::index\<close> is missing. "Row indices are
  always contiguous starting at zero": a row is in range when it is at least 0 and
  less than \<open>rowCount\<close>.
\<close>

definition row_valid :: "window_model \<Rightarrow> int \<Rightarrow> bool" where
  "row_valid m row = (0 \<le> row \<and> row < rowCount m)"

text \<open>
  Modelled from the spec: the source of \<open>PlasmaWindowModel::data\<close> is missing.
  "Returns the item's current value for role, or the role's documented default if the
  row is out of range".
\<close>

definition data :: "window_model \<Rightarrow> int \<Rightarrow> role \<Rightarrow> variant" where
  "data m row r = (if row_valid m row then attrs (windows m ! nat row) r else role_default r)"

text \<open>
  Modelled from the spec: the lookup of an item by its identifier is missing. The row
  of the first item with the given identifier, if there is one.
\<close>

fun find_row :: "window_item list \<Rightarrow> nat \<Rightarrow> nat option" where
  "find_row [] w = None"
| "find_row (it # its) w =
     (if window_id it = w then Some 0 else map_option Suc (find_row its w))"

subsection \<open>Events from the server\<close>



text \<open>
  Modelled from the spec: \<open>onAttributeEvent\<close> "buffers the new value against the item's
  pending-update set; does not emit a notification by itself".
\<close>

definition buffer :: "role \<Rightarrow> variant \<Rightarrow> window_item \<Rightarrow> window_item" where
  "buffer r v it = it\<lparr>pending := (pending it)(r \<mapsto> v)\<rparr>"

text \<open>
  Modelled from the spec: the handler of the attribute events is missing. The value
  is buffered for the item with the given identifier; an identifier that names no item
  is dropped.
\<close>

definition onAttributeEvent :: "nat \<Rightarrow> role \<Rightarrow> variant \<Rightarrow> window_model \<Rightarrow> window_model" where
  "onAttributeEvent w r v m =
     (case find_row (windows m) w of
        None \<Rightarrow> m
      | Some i \<Rightarrow> m\<lparr>windows := (windows m)[i := buffer r v (windows m ! i)]\<rparr>)"

text \<open>
  Modelled from the spec: \<open>onDone\<close> "applies all buffered pending updates atomically to
  the item. For each role whose resulting value differs from its prior value, the role
  is added to a changed-role set; if the changed-role set is non-empty, exactly one
  change notification is emitted carrying the target row index and the changed-role
  set. If no role actually changed, no notification is emitted".
\<close>

definition resulting :: "window_item \<Rightarrow> role \<Rightarrow> variant" where
  "resulting it r = (case pending it r of None \<Rightarrow> attrs it r | Some v \<Rightarrow> v)"

text \<open>
  Modelled from the spec: the changed-role set of \<open>onDone\<close>, "each role whose resulting
  value differs from its prior value", in the order of the roles.
\<close>

definition changed_roles :: "window_item \<Rightarrow> role list" where
  "changed_roles it = filter (\<lambda>r. resulting it r \<noteq> attrs it r) all_roles"

text \<open>
  Modelled from the spec: the atomic application of "all buffered pending updates" of
  \<open>onDone\<close>; the buffer is empty afterwards.
\<close>

definition apply_pending :: "window_item \<Rightarrow> window_item" where
  "apply_pending it = it\<lparr>attrs := resulting it, pending := (\<lambda>r. None)\<rparr>"

text \<open>
  Modelled from the spec: the handler of the done marker is missing. One notification
  with the row and the changed-role set when the set is not empty, none otherwise.
\<close>

definition onDone :: "nat \<Rightarrow> window_model \<Rightarrow> window_model" where
  "onDone w m =
     (case find_row (windows m) w of
        None \<Rightarrow> m
      | Some i \<Rightarrow>
          (let it = windows m ! i; changed = changed_roles it
           in m\<lparr>windows := (windows m)[i := apply_pending it],
                notifications := notifications m @
                  (if changed = [] then [] else [DataChanged i (set changed)])\<rparr>))"








subsection \<open>Requests to the server\<close>

text \<open>
  Modelled from the spec: the source of the request methods is missing. They "forward
  the corresponding protocol request referencing the item's identifier; silently
  ignored (no request sent, no error, no notification) if row is out of range
  (including negative)"; the three toggles "forward a request asserting the logical
  negation of the item's current corresponding boolean attribute" and do "not
  optimistically apply the new value locally".
\<close>

text \<open>
  Modelled from the spec: the sending of a request is missing. The request is
  appended to the requests forwarded so far.
\<close>

definition forward :: "request \<Rightarrow> window_model \<Rightarrow> window_model" where
  "forward q m = m\<lparr>requests := requests m @ [q]\<rparr>"

text \<open>
  Modelled from the spec: \<open>PlasmaWindowModel::requestActivate\<close> is missing. For a row in
  range, the activate request is forwarded for the item of the row;
  otherwise nothing happens.
\<close>

definition requestActivate :: "int \<Rightarrow> window_model \<Rightarrow> window_model" where
  "requestActivate row m =
     (if row_valid m row then forward (RequestActivate (window_id (windows m ! nat row))) m
      else m)"

text \<open>
  Modelled from the spec: \<open>PlasmaWindowModel::requestClose\<close> is missing. For a row in
  range, the close request is forwarded for the item of the row;
  otherwise nothing happens.
\<close>

definition requestClose :: "int \<Rightarrow> window_model \<Rightarrow> window_model" where
  "requestClose row m =
     (if row_valid m row then forward (RequestClose (window_id (windows m ! nat row))) m
      else m)"

text \<open>
  Modelled from the spec: \<open>PlasmaWindowModel::requestMove\<close> is missing. For a row in
  range, the move request is forwarded for the item of the row;
  otherwise nothing happens.
\<close>

definition requestMove :: "int \<Rightarrow> window_model \<Rightarrow> window_model" where
  "requestMove row m =
     (if row_valid m row then forward (RequestMove (window_id (windows m ! nat row))) m
      else m)"

text \<open>
  Modelled from the spec: \<open>PlasmaWindowModel::requestResize\<close> is missing. For a row in
  range, the resize request is forwarded for the item of the row;
  otherwise nothing happens.
\<close>

definition requestResize :: "int \<Rightarrow> window_model \<Rightarrow> window_model" where
  "requestResize row m =
     (if row_valid m row then forward (RequestResize (window_id (windows m ! nat row))) m
      else m)"

text \<open>
  Modelled from the spec: \<open>PlasmaWindowModel::requestVirtualDesktop\<close> is missing. For a row in
  range, the request to move the window to a virtual desktop is forwarded for the item of the row;
  otherwise nothing happens.
\<close>

definition requestVirtualDesktop :: "int \<Rightarrow> uint32_t \<Rightarrow> window_model \<Rightarrow> window_model" where
  "requestVirtualDesktop row desktop m =
     (if row_valid m row
      then forward (RequestVirtualDesktop (window_id (windows m ! nat row)) desktop) m
      else m)"

text \<open>
  Modelled from the spec: \<open>PlasmaWindowModel::requestToggleMinimized\<close> is missing. For a row in
  range, the request to set minimized to the negation of the current value is forwarded for the item of the row;
  otherwise nothing happens.
\<close>

definition requestToggleMinimized :: "int \<Rightarrow> window_model \<Rightarrow> window_model" where
  "requestToggleMinimized row m =
     (if row_valid m row
      then forward (RequestMinimized (window_id (windows m ! nat row))
                      (\<not> toBool (data m row IsMinimized))) m
      else m)"

text \<open>
  Modelled from the spec: \<open>PlasmaWindowModel::requestToggleMaximized\<close> is missing. For a row in
  range, the request to set maximized to the negation of the current value is forwarded for the item of the row;
  otherwise nothing happens.
\<close>

definition requestToggleMaximized :: "int \<Rightarrow> window_model \<Rightarrow> window_model" where
  "requestToggleMaximized row m =
     (if row_valid m row
      then forward (RequestMaximized (window_id (windows m ! nat row))
                      (\<not> toBool (data m row IsMaximized))) m
      else m)"

text \<open>
  Modelled from the spec: \<open>PlasmaWindowModel::requestToggleShaded\<close> is missing. For a row in
  range, the request to set shaded to the negation of the current value is forwarded for the item of the row;
  otherwise nothing happens.
\<close>

definition requestToggleShaded :: "int \<Rightarrow> window_model \<Rightarrow> window_model" where
  "requestToggleShaded row m =
     (if row_valid m row
      then forward (RequestShaded (window_id (windows m ! nat row))
                      (\<not> toBool (data m row IsShaded))) m
      else m)"

subsection \<open>Example models\<close>

text \<open>
  A model with two fresh items, and the same model after the server has reported the
  second item as minimized.
\<close>

definition window_model_example :: window_model where
  "window_model_example =
     \<lparr>windows = [new_window 10, new_window 11],
      notifications = [RowsInserted 0, RowsInserted 1],
      requests = []\<rparr>"

definition window_model_minimized :: window_model where
  "window_model_minimized =
     onDone 11 (onAttributeEvent 11 IsMinimized (VBool True) window_model_example)"

section \<open>Properties of the seat global\<close>

subsection \<open>What one call sends\<close>

lemma sendCapabilities_eq:
  "sendCapabilities r d =
     d\<lparr>wire := wire d @ [Capabilities r (enabled_flags (pointer d) (keyboard d) (touch d))]\<rparr>"
  by (simp add: sendCapabilities_def enabled_flags_def wl_seat_send_capabilities_def Let_def or.assoc)

lemma fold_sendCapabilities:
  "fold sendCapabilities rs d =
     d\<lparr>wire := wire d @ map (\<lambda>r. Capabilities r (enabled_flags (pointer d) (keyboard d) (touch d))) rs\<rparr>"
  by (induction rs arbitrary: d) (simp_all add: sendCapabilities_eq)

lemma sendName_eq:
  "sendName r d =
     (if WL_SEAT_NAME_SINCE_VERSION \<le> res_version r then d\<lparr>wire := wire d @ [Name r (name d)]\<rparr>
      else d)"
  by (simp add: sendName_def wl_resource_get_version_def wl_seat_send_name_def)

lemma fold_sendName:
  "fold sendName rs d =
     d\<lparr>wire := wire d @
        map (\<lambda>r. Name r (name d)) (filter (\<lambda>r. WL_SEAT_NAME_SINCE_VERSION \<le> res_version r) rs)\<rparr>"
  by (induction rs arbitrary: d) (simp_all add: sendName_eq)

lemma bit_capability:
  "bit WL_SEAT_CAPABILITY_POINTER n \<longleftrightarrow> n = 0"
  "bit WL_SEAT_CAPABILITY_KEYBOARD n \<longleftrightarrow> n = 1"
  "bit WL_SEAT_CAPABILITY_TOUCH n \<longleftrightarrow> n = 2"
proof -
  show "bit WL_SEAT_CAPABILITY_POINTER n \<longleftrightarrow> n = 0"
    by (simp add: WL_SEAT_CAPABILITY_POINTER_def bit_1_iff)
  show "bit WL_SEAT_CAPABILITY_KEYBOARD n \<longleftrightarrow> n = 1"
    by (auto simp: WL_SEAT_CAPABILITY_KEYBOARD_def bit_2_iff)
  have "bit (4 :: uint32_t) n \<longleftrightarrow> bit (push_bit 2 (1 :: uint32_t)) n"
    by simp
  also have "\<dots> \<longleftrightarrow> n = 2"
    unfolding bit_push_bit_iff by (auto simp: bit_1_iff)
  finally show "bit WL_SEAT_CAPABILITY_TOUCH n \<longleftrightarrow> n = 2"
    by (simp add: WL_SEAT_CAPABILITY_TOUCH_def)
qed

lemma enabled_flags_bit:
  "bit (enabled_flags p k t) n \<longleftrightarrow> (n = 0 \<and> p) \<or> (n = 1 \<and> k) \<or> (n = 2 \<and> t)"
  by (cases p; cases k; cases t) (auto simp: enabled_flags_def bit_or_iff bit_capability)

lemma bind_False_eq:
  "bind False client version ident d = d\<lparr>wire := wire d @ [NoMemory client]\<rparr>"
  by (simp add: bind_def wl_resource_create_def wl_client_post_no_memory_def)

lemma uint_min_s_version: "uint (min s_version version) = min 3 (uint version)"
  by (simp add: s_version_def min_def word_le_def)

lemma bind_True_eq:
  "bind True client version ident d =
     (let r = \<lparr>res_client = client, res_version = min 3 (uint version), res_id = ident\<rparr>
      in d\<lparr>resources := resources d @ [r],
           wire := wire d @
             Capabilities r (enabled_flags (pointer d) (keyboard d) (touch d))
             # (if WL_SEAT_NAME_SINCE_VERSION \<le> res_version r then [Name r (name d)] else [])\<rparr>)"
  by (simp add: bind_def wl_resource_create_def sendCapabilities_eq sendName_eq Let_def
      uint_min_s_version)

subsection \<open>Name events only reach resources of version 2 or later\<close>

lemma seat_step_versioned:
  assumes "list_all name_event_versioned (wire d)"
  shows "list_all name_event_versioned (wire (seat_step c d))"
proof (cases c)
  case (Bind mem client version ident)
  with assms show ?thesis
    by (cases mem) (simp_all add: bind_True_eq bind_False_eq Let_def)
next
  case (SetName n)
  with assms show ?thesis
    by (auto simp: setName_def sendNameAll_def fold_sendName list_all_iff)
qed (use assms in \<open>auto simp: unbind_def setHasPointer_def setHasKeyboard_def setHasTouch_def
       sendCapabilitiesAll_def fold_sendCapabilities list_all_iff\<close>)

lemma fold_seat_step_versioned:
  "list_all name_event_versioned (wire d) \<Longrightarrow>
   list_all name_event_versioned (wire (fold seat_step calls d))"
  by (induction calls arbitrary: d) (simp_all add: seat_step_versioned)

lemma seat_run_versioned:
  "Name r n \<in> set (wire (seat_run calls)) \<Longrightarrow> WL_SEAT_NAME_SINCE_VERSION \<le> res_version r"
proof -
  assume a: "Name r n \<in> set (wire (seat_run calls))"
  have "list_all name_event_versioned (wire (seat_run calls))"
    unfolding seat_run_def by (rule fold_seat_step_versioned) (simp add: seat_private_init_def)
  with a have "name_event_versioned (Name r n)"
    by (auto simp: list_all_iff)
  then show ?thesis by simp
qed

subsection \<open>The claims about the seat\<close>

text \<open>
  C6. When \<open>setHasPointer\<close>, \<open>setHasKeyboard\<close> or \<open>setHasTouch\<close> changes a flag, every
  bound resource is sent one capabilities event, in the order of the list, and its
  payload is the union of the flags enabled after the change: bit 0 is set exactly
  when the seat has a pointer, bit 1 a keyboard, bit 2 touch, and no other bit is set.
  The payload does not depend on what was sent before.
\<close>

theorem capabilities_broadcast_full_set:
  "(pointer d \<noteq> has \<longrightarrow>
      setHasPointer has d =
        d\<lparr>pointer := has,
          wire := wire d @
            map (\<lambda>r. Capabilities r (enabled_flags has (keyboard d) (touch d))) (resources d)\<rparr>)
   \<and> (keyboard d \<noteq> has \<longrightarrow>
      setHasKeyboard has d =
        d\<lparr>keyboard := has,
          wire := wire d @
            map (\<lambda>r. Capabilities r (enabled_flags (pointer d) has (touch d))) (resources d)\<rparr>)
   \<and> (touch d \<noteq> has \<longrightarrow>
      setHasTouch has d =
        d\<lparr>touch := has,
          wire := wire d @
            map (\<lambda>r. Capabilities r (enabled_flags (pointer d) (keyboard d) has)) (resources d)\<rparr>)
   \<and> (\<forall>p k t n. bit (enabled_flags p k t) n \<longleftrightarrow> (n = 0 \<and> p) \<or> (n = 1 \<and> k) \<or> (n = 2 \<and> t))"
  by (simp add: setHasPointer_def setHasKeyboard_def setHasTouch_def sendCapabilitiesAll_def
      fold_sendCapabilities enabled_flags_bit)

theorem capabilities_broadcast_full_set_witness:
  "touch seat_example \<noteq> True
   \<and> wire (setHasTouch True seat_example) =
       [Capabilities \<lparr>res_client = 1, res_version = 3, res_id = 7\<rparr> 7,
        Capabilities \<lparr>res_client = 2, res_version = 1, res_id = 4\<rparr> 7]"
  using capabilities_broadcast_full_set [of seat_example True]
  by (simp add: seat_example_def enabled_flags_def WL_SEAT_CAPABILITY_POINTER_def
      WL_SEAT_CAPABILITY_KEYBOARD_def WL_SEAT_CAPABILITY_TOUCH_def)

text \<open>
  C7. When the allocation of the resource fails, \<open>bind\<close> posts the fatal out-of-memory
  error to the connection that asked, and does nothing else: the list of resources and
  every other member of the seat are as before, and no other event is sent.
\<close>

theorem bind_alloc_failure:
  "bind False client version ident d = d\<lparr>wire := wire d @ [NoMemory client]\<rparr>
   \<and> resources (bind False client version ident d) = resources d"
  by (simp add: bind_def wl_resource_create_def wl_client_post_no_memory_def)

text \<open>
  C8. A name event goes to a resource exactly when its version is at least
  \<open>WL_SEAT_NAME_SINCE_VERSION\<close> = 2. When \<open>setName\<close> changes the name, the events sent
  are one name event for each bound resource of version 2 or later, in the order of
  the list, and none for the others. A successful bind sends the new resource a name
  event exactly when its negotiated version is 2 or later. In every run of calls from
  the constructed seat, every name event sent is to a resource of version 2 or later.
\<close>

theorem name_event_iff_version:
  "(name d \<noteq> n \<longrightarrow>
      wire (setName n d) =
        wire d @ map (\<lambda>r. Name r n)
          (filter (\<lambda>r. WL_SEAT_NAME_SINCE_VERSION \<le> wl_resource_get_version r) (resources d)))
   \<and> filter is_name_event (wire (bind True client version ident d)) =
       filter is_name_event (wire d) @
         (if WL_SEAT_NAME_SINCE_VERSION \<le> min 3 (uint version)
          then [Name \<lparr>res_client = client, res_version = min 3 (uint version), res_id = ident\<rparr>
                  (name d)]
          else [])
   \<and> (\<forall>r s. Name r s \<in> set (wire (seat_run calls)) \<longrightarrow>
         WL_SEAT_NAME_SINCE_VERSION \<le> wl_resource_get_version r)"
  by (auto simp: setName_def sendNameAll_def fold_sendName bind_True_eq Let_def
      wl_resource_get_version_def dest: seat_run_versioned)

theorem name_event_iff_version_witness:
  "name seat_example \<noteq> ''seat1''
   \<and> wire (setName ''seat1'' seat_example) =
       [Name \<lparr>res_client = 1, res_version = 3, res_id = 7\<rparr> ''seat1'']
   \<and> filter is_name_event (wire (bind True 5 1 9 seat_example)) = []
   \<and> filter is_name_event (wire (bind True 5 2 9 seat_example)) =
       [Name \<lparr>res_client = 5, res_version = 2, res_id = 9\<rparr> ''seat0'']
   \<and> Name \<lparr>res_client = 5, res_version = 3, res_id = 9\<rparr> ''a''
       \<in> set (wire (seat_run [Bind True 4 1 8, Bind True 5 6 9, SetName ''a'']))
   \<and> WL_SEAT_NAME_SINCE_VERSION \<le> wl_resource_get_version \<lparr>res_client = 5, res_version = 3, res_id = 9\<rparr>"
  using name_event_iff_version
    [of seat_example "''seat1''" 5 1 9 "[Bind True 4 1 8, Bind True 5 6 9, SetName ''a'']"]
    name_event_iff_version [of seat_example "''seat1''" 5 2 9 "[]"]
  by (simp add: seat_example_def seat_run_def seat_private_init_def bind_True_eq Let_def
      setName_def sendNameAll_def sendName_eq WL_SEAT_NAME_SINCE_VERSION_def
      wl_resource_get_version_def enabled_flags_def)

text \<open>
  C9. A successful \<open>bind\<close> creates the resource at version min(3, requested version),
  appends it to the list of resources, and sends it, at once, one capabilities event
  with the union of the flags now enabled, followed by one name event with the
  current name if the negotiated version is 2 or later. Nothing else changes.
\<close>

theorem bind_success:
  "bind True client version ident d =
     (let r = \<lparr>res_client = client, res_version = min 3 (uint version), res_id = ident\<rparr>
      in d\<lparr>resources := resources d @ [r],
           wire := wire d @
             Capabilities r (enabled_flags (pointer d) (keyboard d) (touch d))
             # (if WL_SEAT_NAME_SINCE_VERSION \<le> wl_resource_get_version r
                then [Name r (name d)] else [])\<rparr>)"
  by (simp add: bind_def wl_resource_create_def sendCapabilities_eq sendName_eq Let_def
      uint_min_s_version wl_resource_get_version_def)

section \<open>Properties of the sub-surface\<close>

text \<open>
  C10. A sub-surface as its default member initialisers leave it is in synchronized
  mode, at position (0, 0), with no position change scheduled (and the scheduled
  position is the null point).
\<close>

theorem subsurface_initial_state:
  "mode subsurface_private_init = Synchronized
   \<and> pos subsurface_private_init = \<lparr>xp = 0, yp = 0\<rparr>
   \<and> scheduledPosChange subsurface_private_init = False
   \<and> scheduledPos subsurface_private_init = \<lparr>xp = 0, yp = 0\<rparr>"
  by (simp add: subsurface_private_init_def QPoint_null_def)

section \<open>Properties of the window replica model\<close>

subsection \<open>Rows and buffered updates\<close>

lemma set_all_roles: "set all_roles = UNIV"
proof -
  have "r \<in> set all_roles" for r
    by (cases r) (simp_all add: all_roles_def)
  then show ?thesis by auto
qed

lemma find_row_Some:
  "find_row ws w = Some i \<Longrightarrow> i < length ws \<and> window_id (ws ! i) = w"
  by (induction ws arbitrary: i) (auto split: if_splits)

lemma find_row_update:
  "i < length ws \<Longrightarrow> window_id it = window_id (ws ! i) \<Longrightarrow>
   find_row (ws[i := it]) w = find_row ws w"
proof (induction ws arbitrary: i)
  case Nil
  then show ?case by simp
next
  case (Cons a ws)
  then show ?case by (cases i) simp_all
qed

lemma window_id_buffer: "window_id (buffer r v it) = window_id it"
  by (simp add: buffer_def)

lemma attrs_buffer: "attrs (buffer r v it) = attrs it"
  by (simp add: buffer_def)

lemma fold_buffer_keeps:
  "window_id (fold (\<lambda>(r, v). buffer r v) batch it) = window_id it
   \<and> attrs (fold (\<lambda>(r, v). buffer r v) batch it) = attrs it"
  by (induction batch arbitrary: it) (auto simp: window_id_buffer attrs_buffer)

lemma fold_onAttributeEvent:
  "find_row (windows m) w = Some i \<Longrightarrow>
   fold (\<lambda>(r, v). onAttributeEvent w r v) batch m =
     m\<lparr>windows := (windows m)[i := fold (\<lambda>(r, v). buffer r v) batch (windows m ! i)]\<rparr>"
proof (induction batch arbitrary: m)
  case Nil
  then show ?case by simp
next
  case (Cons a batch)
  obtain r v where a: "a = (r, v)" by (cases a)
  let ?m = "onAttributeEvent w r v m"
  from Cons.prems have i: "i < length (windows m)"
    by (simp add: find_row_Some)
  have m': "?m = m\<lparr>windows := (windows m)[i := buffer r v (windows m ! i)]\<rparr>"
    using Cons.prems by (simp add: onAttributeEvent_def)
  have "find_row (windows ?m) w = Some i"
    using Cons.prems i by (simp add: m' find_row_update window_id_buffer)
  from Cons.IH [OF this] show ?case
    using i by (simp add: a m')
qed


lemma onDone_at:
  assumes "find_row (windows m) w = Some i"
  shows "onDone w m =
     m\<lparr>windows := (windows m)[i := apply_pending (windows m ! i)],
       notifications := notifications m @
         (if changed_roles (windows m ! i) = [] then []
          else [DataChanged i (set (changed_roles (windows m ! i)))])\<rparr>"
  using assms by (simp add: onDone_def Let_def)

lemma set_changed_roles: "set (changed_roles it) = {r. resulting it r \<noteq> attrs it r}"
  by (simp add: changed_roles_def set_all_roles)

lemma changed_roles_Nil: "changed_roles it = [] \<longleftrightarrow> {r. resulting it r \<noteq> attrs it r} = {}"
  using set_changed_roles [of it] by (metis set_empty)

lemma data_at: "i < length (windows m) \<Longrightarrow> data m (int i) r = attrs (windows m ! i) r"
  by (simp add: data_def row_valid_def rowCount_def)

lemma batch_then_done:
  fixes batch :: "(role \<times> variant) list"
  assumes f: "find_row (windows m) w = Some i"
  defines "it \<equiv> fold (\<lambda>(r, v). buffer r v) batch (windows m ! i)"
  shows "onDone w (fold (\<lambda>(r, v). onAttributeEvent w r v) batch m) =
     m\<lparr>windows := (windows m)[i := apply_pending it],
       notifications := notifications m @
         (if changed_roles it = [] then [] else [DataChanged i (set (changed_roles it))])\<rparr>"
proof -
  let ?m1 = "fold (\<lambda>(r, v). onAttributeEvent w r v) batch m"
  have i: "i < length (windows m)" using f by (simp add: find_row_Some)
  have m1: "?m1 = m\<lparr>windows := (windows m)[i := it]\<rparr>"
    unfolding it_def by (rule fold_onAttributeEvent [OF f])
  have "window_id it = window_id (windows m ! i)"
    unfolding it_def by (simp add: fold_buffer_keeps)
  with f i have f1: "find_row (windows ?m1) w = Some i"
    by (simp add: m1 find_row_update)
  show ?thesis
    using i by (simp add: onDone_at [OF f1]) (simp add: m1)
qed

subsection \<open>Row counts\<close>




subsection \<open>Forwarding keeps the data\<close>

lemma data_forward: "data (forward q m) row r = data m row r"
  by (simp add: forward_def data_def row_valid_def rowCount_def)

subsection \<open>A batch followed by done\<close>

lemma fold_buffer_pending_eq:
  "pending (fold (\<lambda>(r, v). buffer r v) batch it) r =
     (case map_of (rev batch) r of Some v \<Rightarrow> Some v | None \<Rightarrow> pending it r)"
proof (induction batch arbitrary: it)
  case Nil
  then show ?case by simp
next
  case (Cons a batch)
  obtain r' v' where a: "a = (r', v')" by (cases a)
  have step: "pending (buffer r' v' it) r = (if r = r' then Some v' else pending it r)"
    by (simp add: buffer_def)
  show ?case
    by (simp add: a Cons.IH step map_of_append map_add_def split: option.splits)
qed

lemma batch_done_data:
  assumes f: "find_row (windows m) w = Some i"
  shows "data (onDone w (fold (\<lambda>(r, v). onAttributeEvent w r v) batch m)) (int i) r =
     (case map_of (rev batch) r of
        Some v \<Rightarrow> v
      | None \<Rightarrow> (case pending (windows m ! i) r of Some v \<Rightarrow> v | None \<Rightarrow> data m (int i) r))"
proof -
  have i: "i < length (windows m)" using f by (simp add: find_row_Some)
  show ?thesis
    using i
    by (simp add: batch_then_done [OF f] data_def row_valid_def rowCount_def apply_pending_def
        resulting_def fold_buffer_pending_eq fold_buffer_keeps split: option.splits)
qed

lemma batch_done_other_rows:
  assumes f: "find_row (windows m) w = Some i" and "row \<noteq> int i"
  shows "data (onDone w (fold (\<lambda>(r, v). onAttributeEvent w r v) batch m)) row r = data m row r"
  using assms(2)
  by (auto simp: batch_then_done [OF f] data_def row_valid_def rowCount_def)

lemma batch_data:
  assumes f: "find_row (windows m) w = Some i"
  shows "data (fold (\<lambda>(r, v). onAttributeEvent w r v) batch m) row r = data m row r"
proof -
  have i: "i < length (windows m)" using f by (simp add: find_row_Some)
  show ?thesis
    by (cases "nat row = i")
      (auto simp: fold_onAttributeEvent [OF f] data_def row_valid_def rowCount_def
        fold_buffer_keeps)
qed

lemma batch_done_pending:
  assumes f: "find_row (windows m) w = Some i"
  shows "pending (windows (onDone w (fold (\<lambda>(r, v). onAttributeEvent w r v) batch m)) ! i) r = None"
  using find_row_Some [OF f]
  by (simp add: batch_then_done [OF f] apply_pending_def)

lemma batch_done_notifications:
  assumes f: "find_row (windows m) w = Some i"
  shows "notifications (onDone w (fold (\<lambda>(r, v). onAttributeEvent w r v) batch m)) =
     notifications m @
       (if {r. data (onDone w (fold (\<lambda>(r, v). onAttributeEvent w r v) batch m)) (int i) r
               \<noteq> data m (int i) r} = {} then []
        else [DataChanged i
               {r. data (onDone w (fold (\<lambda>(r, v). onAttributeEvent w r v) batch m)) (int i) r
                   \<noteq> data m (int i) r}])"
proof -
  define it where "it = fold (\<lambda>(r, v). buffer r v) batch (windows m ! i)"
  let ?m2 = "onDone w (fold (\<lambda>(r, v). onAttributeEvent w r v) batch m)"
  have i: "i < length (windows m)" using f by (simp add: find_row_Some)
  have m2: "?m2 =
     m\<lparr>windows := (windows m)[i := apply_pending it],
       notifications := notifications m @
         (if changed_roles it = [] then [] else [DataChanged i (set (changed_roles it))])\<rparr>"
    unfolding it_def by (rule batch_then_done [OF f])
  have attrs_it: "attrs it = attrs (windows m ! i)"
    unfolding it_def by (simp add: fold_buffer_keeps)
  have d2: "data ?m2 (int i) r = resulting it r" for r
    using i by (simp add: m2 data_def row_valid_def rowCount_def apply_pending_def)
  have d0: "data m (int i) r = attrs it r" for r
    using i by (simp add: data_at attrs_it)
  have changed: "{r. data ?m2 (int i) r \<noteq> data m (int i) r} = set (changed_roles it)"
    by (simp add: d2 d0 set_changed_roles)
  show ?thesis
    unfolding changed by (simp add: m2)
qed

subsection \<open>Identifiers and rows\<close>








subsection \<open>The claims about the window replica model\<close>

text \<open>
  C1. Let an item with identifier \<open>w\<close> be at row \<open>i\<close>, and let a batch of attribute
  events for \<open>w\<close> be followed by a done marker. The attribute events emit no
  notification and change no value that \<open>data\<close> returns. After the done marker the
  value of each role at row \<open>i\<close> is the last value the batch carries for the role, or,
  when the batch has none, the value buffered earlier, or else the value before; the
  other rows are as before, and nothing is left buffered. The done marker emits
  exactly one data-changed notification, carrying row \<open>i\<close> and the set of the roles
  whose value after the batch differs from the value before it, when that set is not
  empty, and no notification when it is empty. In particular, when nothing was
  buffered before: a batch in which every event carries the current value of its role
  emits no notification, and a single event with a value that differs from the current
  one, followed by done, emits one notification with exactly that role, after which
  \<open>data\<close> returns the new value.
\<close>

theorem done_notifies_changed_roles:
  assumes "find_row (windows m) w = Some i"
  shows "(let m1 = fold (\<lambda>(r, v). onAttributeEvent w r v) batch m;
              m2 = onDone w m1;
              changed = {r. data m2 (int i) r \<noteq> data m (int i) r}
          in notifications m1 = notifications m
             \<and> (\<forall>row r. data m1 row r = data m row r)
             \<and> (\<forall>r. data m2 (int i) r =
                   (case map_of (rev batch) r of
                      Some v \<Rightarrow> v
                    | None \<Rightarrow> (case pending (windows m ! i) r of
                                 Some v \<Rightarrow> v
                               | None \<Rightarrow> data m (int i) r)))
             \<and> (\<forall>row r. row \<noteq> int i \<longrightarrow> data m2 row r = data m row r)
             \<and> (\<forall>r. pending (windows m2 ! i) r = None)
             \<and> notifications m2 =
                 notifications m @ (if changed = {} then [] else [DataChanged i changed])
             \<and> ((\<forall>r. pending (windows m ! i) r = None)
                  \<and> (\<forall>(r, v) \<in> set batch. v = data m (int i) r)
                \<longrightarrow> notifications m2 = notifications m)
             \<and> ((\<forall>r. pending (windows m ! i) r = None) \<and> v0 \<noteq> data m (int i) r0
                \<longrightarrow> notifications (onDone w (onAttributeEvent w r0 v0 m)) =
                      notifications m @ [DataChanged i {r0}]
                    \<and> data (onDone w (onAttributeEvent w r0 v0 m)) (int i) r0 = v0))"
proof -
  let ?m1 = "fold (\<lambda>(r, v). onAttributeEvent w r v) batch m"
  let ?m2 = "onDone w ?m1"
  note f = assms
  have n1: "notifications ?m1 = notifications m"
    by (simp add: fold_onAttributeEvent [OF f])
  have d1: "\<forall>row r. data ?m1 row r = data m row r"
    by (simp add: batch_data [OF f])
  have d2: "\<forall>r. data ?m2 (int i) r =
       (case map_of (rev batch) r of
          Some v \<Rightarrow> v
        | None \<Rightarrow> (case pending (windows m ! i) r of Some v \<Rightarrow> v | None \<Rightarrow> data m (int i) r))"
    by (simp add: batch_done_data [OF f])
  have d3: "\<forall>row r. row \<noteq> int i \<longrightarrow> data ?m2 row r = data m row r"
    by (simp add: batch_done_other_rows [OF f])
  have p2: "\<forall>r. pending (windows ?m2 ! i) r = None"
    by (simp add: batch_done_pending [OF f])
  have n2: "notifications ?m2 =
      notifications m @
        (if {r. data ?m2 (int i) r \<noteq> data m (int i) r} = {} then []
         else [DataChanged i {r. data ?m2 (int i) r \<noteq> data m (int i) r}])"
    by (rule batch_done_notifications [OF f])
  have idem: "notifications ?m2 = notifications m"
    if p: "\<forall>r. pending (windows m ! i) r = None"
      and b: "\<forall>(r, v) \<in> set batch. v = data m (int i) r"
  proof -
    have "data ?m2 (int i) r = data m (int i) r" for r
    proof (cases "map_of (rev batch) r")
      case None
      with p show ?thesis by (simp add: batch_done_data [OF f])
    next
      case (Some v)
      then have "(r, v) \<in> set batch"
        using map_of_SomeD [of "rev batch" r v] by simp
      with b have "v = data m (int i) r" by auto
      with Some show ?thesis by (simp add: batch_done_data [OF f])
    qed
    then show ?thesis by (simp add: n2)
  qed
  have single: "notifications (onDone w (onAttributeEvent w r0 v0 m)) =
                      notifications m @ [DataChanged i {r0}]
                    \<and> data (onDone w (onAttributeEvent w r0 v0 m)) (int i) r0 = v0"
    if p: "\<forall>r. pending (windows m ! i) r = None" and v: "v0 \<noteq> data m (int i) r0"
  proof -
    let ?s = "onDone w (onAttributeEvent w r0 v0 m)"
    have d: "data ?s (int i) r = (if r = r0 then v0 else data m (int i) r)" for r
      using batch_done_data [OF f, of "[(r0, v0)]" r] p by simp
    have c: "{r. data ?s (int i) r \<noteq> data m (int i) r} = {r0}"
      using v by (auto simp: d)
    have "notifications ?s = notifications m @ [DataChanged i {r0}]"
      using batch_done_notifications [OF f, of "[(r0, v0)]"] c by simp
    with d show ?thesis by simp
  qed
  show ?thesis
    unfolding Let_def using n1 d1 d2 d3 p2 n2 idem single by blast
qed


theorem done_notifies_changed_roles_witness:
  "find_row (windows window_model_example) 11 = Some 1
   \<and> notifications (onDone 11 (fold (\<lambda>(r, v). onAttributeEvent 11 r v)
        [(IsMinimized, VBool True), (DisplayRole, VString ''foo''), (IsActive, VBool False)]
        window_model_example)) =
       [RowsInserted 0, RowsInserted 1, DataChanged 1 {DisplayRole, IsMinimized}]
   \<and> data (onDone 11 (fold (\<lambda>(r, v). onAttributeEvent 11 r v)
        [(IsMinimized, VBool True), (DisplayRole, VString ''foo''), (IsActive, VBool False)]
        window_model_example)) 1 IsMinimized = VBool True
   \<and> notifications (onDone 11 (fold (\<lambda>(r, v). onAttributeEvent 11 r v)
        [(VirtualDesktop, VInt 0)] window_model_example)) =
       [RowsInserted 0, RowsInserted 1]
   \<and> notifications (onDone 11 (onAttributeEvent 11 IsShaded (VBool True) window_model_example)) =
       [RowsInserted 0, RowsInserted 1, DataChanged 1 {IsShaded}]
   \<and> data (onDone 11 (onAttributeEvent 11 IsShaded (VBool True) window_model_example))
         1 IsShaded = VBool True"
proof -
  let ?ex = window_model_example
  let ?b1 = "[(IsMinimized, VBool True), (DisplayRole, VString ''foo''), (IsActive, VBool False)]"
  let ?m2 = "onDone 11 (fold (\<lambda>(r, v). onAttributeEvent 11 r v) ?b1 ?ex)"
  let ?n2 = "onDone 11 (fold (\<lambda>(r, v). onAttributeEvent 11 r v) [(VirtualDesktop, VInt 0)] ?ex)"
  let ?s2 = "onDone 11 (onAttributeEvent 11 IsShaded (VBool True) ?ex)"
  have f: "find_row (windows ?ex) 11 = Some 1"
    by (simp add: window_model_example_def new_window_def)
  have d0: "data ?ex (int 1) r = role_default r" for r
    by (simp add: window_model_example_def new_window_def data_def row_valid_def rowCount_def)
  have p: "\<forall>r. pending (windows ?ex ! 1) r = None"
    by (simp add: window_model_example_def new_window_def)
  have n0: "notifications ?ex = [RowsInserted 0, RowsInserted 1]"
    by (simp add: window_model_example_def)
  note t1 = done_notifies_changed_roles [OF f, of ?b1 "VBool True" IsShaded, unfolded Let_def]
  note t2 = done_notifies_changed_roles [OF f, of "[(VirtualDesktop, VInt 0)]" "VBool True" IsShaded,
      unfolded Let_def]
  have "\<forall>r. data ?m2 (int 1) r =
       (case map_of (rev ?b1) r of
          Some v \<Rightarrow> v
        | None \<Rightarrow> (case pending (windows ?ex ! 1) r of Some v \<Rightarrow> v | None \<Rightarrow> data ?ex (int 1) r))"
    using t1 by blast
  then have d2: "data ?m2 (int 1) r =
      (if r = IsMinimized then VBool True else if r = DisplayRole then VString ''foo''
       else role_default r)" for r
    unfolding d0 using p by (cases r) simp_all
  have C: "{r. data ?m2 (int 1) r \<noteq> data ?ex (int 1) r} = {DisplayRole, IsMinimized}"
    unfolding d0 d2 by auto
  have a: "notifications ?m2 =
      notifications ?ex @
        (if {r. data ?m2 (int 1) r \<noteq> data ?ex (int 1) r} = {} then []
         else [DataChanged 1 {r. data ?m2 (int 1) r \<noteq> data ?ex (int 1) r}])"
    using t1 by blast
  have b: "(\<forall>r. pending (windows ?ex ! 1) r = None)
      \<and> (\<forall>(r, v) \<in> set [(VirtualDesktop, VInt 0)]. v = data ?ex (int 1) r)
      \<longrightarrow> notifications ?n2 = notifications ?ex"
    using t2 by blast
  have c: "(\<forall>r. pending (windows ?ex ! 1) r = None) \<and> VBool True \<noteq> data ?ex (int 1) IsShaded
      \<longrightarrow> notifications ?s2 = notifications ?ex @ [DataChanged 1 {IsShaded}]
          \<and> data ?s2 (int 1) IsShaded = VBool True"
    using t1 by blast
  have q: "\<forall>(r, v) \<in> set [(VirtualDesktop, VInt 0)]. v = data ?ex (int 1) r"
    unfolding d0 by simp
  have v: "VBool True \<noteq> data ?ex (int 1) IsShaded"
    unfolding d0 by simp
  from b p q have b': "notifications ?n2 = notifications ?ex" by blast
  from c p v have c': "notifications ?s2 = notifications ?ex @ [DataChanged 1 {IsShaded}]"
    and c'': "data ?s2 (int 1) IsShaded = VBool True" by blast+
  from a have a': "notifications ?m2 =
      [RowsInserted 0, RowsInserted 1, DataChanged 1 {DisplayRole, IsMinimized}]"
    unfolding C n0 by simp
  have a'': "data ?m2 (int 1) IsMinimized = VBool True"
    unfolding d2 by simp
  from f a' a'' b' c' c'' n0 show ?thesis by simp
qed




text \<open>
  C4. For a row in range, each of \<open>requestToggleMinimized\<close>, \<open>requestToggleMaximized\<close>
  and \<open>requestToggleShaded\<close> forwards exactly one request, for the item of that row,
  whose payload is the negation of the current value of the role; the items, the
  values \<open>data\<close> returns and the notifications are unchanged.
\<close>

theorem toggle_requests_negate_current:
  "row_valid m row \<longrightarrow>
     (requests (requestToggleMinimized row m) =
        requests m @ [RequestMinimized (window_id (windows m ! nat row))
                        (\<not> toBool (data m row IsMinimized))]
      \<and> windows (requestToggleMinimized row m) = windows m
      \<and> notifications (requestToggleMinimized row m) = notifications m
      \<and> (\<forall>row' r. data (requestToggleMinimized row m) row' r = data m row' r))
     \<and> (requests (requestToggleMaximized row m) =
        requests m @ [RequestMaximized (window_id (windows m ! nat row))
                        (\<not> toBool (data m row IsMaximized))]
      \<and> windows (requestToggleMaximized row m) = windows m
      \<and> notifications (requestToggleMaximized row m) = notifications m
      \<and> (\<forall>row' r. data (requestToggleMaximized row m) row' r = data m row' r))
     \<and> (requests (requestToggleShaded row m) =
        requests m @ [RequestShaded (window_id (windows m ! nat row))
                        (\<not> toBool (data m row IsShaded))]
      \<and> windows (requestToggleShaded row m) = windows m
      \<and> notifications (requestToggleShaded row m) = notifications m
      \<and> (\<forall>row' r. data (requestToggleShaded row m) row' r = data m row' r))"
  by (simp add: requestToggleMinimized_def requestToggleMaximized_def requestToggleShaded_def
      data_forward) (simp add: forward_def)

theorem toggle_requests_negate_current_witness:
  "row_valid window_model_minimized 1
   \<and> data window_model_minimized 1 IsMinimized = VBool True
   \<and> requests (requestToggleMinimized 1 window_model_minimized) = [RequestMinimized 11 False]
   \<and> requests (requestToggleMaximized 1 window_model_minimized) = [RequestMaximized 11 True]
   \<and> requests (requestToggleShaded 1 window_model_minimized) = [RequestShaded 11 True]
   \<and> data (requestToggleMinimized 1 window_model_minimized) 1 IsMinimized = VBool True
   \<and> notifications (requestToggleMinimized 1 window_model_minimized) =
       notifications window_model_minimized"
proof -
  have w: "windows window_model_minimized =
      [new_window 10,
       \<lparr>window_id = 11, attrs = resulting (buffer IsMinimized (VBool True) (new_window 11)),
        pending = (\<lambda>r. None)\<rparr>]"
    by (simp add: window_model_minimized_def window_model_example_def onDone_def
        onAttributeEvent_def Let_def apply_pending_def new_window_def buffer_def)
  have q: "requests window_model_minimized = []"
    by (simp add: window_model_minimized_def window_model_example_def onDone_def
        onAttributeEvent_def Let_def new_window_def)
  have v: "row_valid window_model_minimized 1"
    by (simp add: row_valid_def rowCount_def w)
  have d: "data window_model_minimized 1 IsMinimized = VBool True"
    "data window_model_minimized 1 IsMaximized = VBool False"
    "data window_model_minimized 1 IsShaded = VBool False"
    by (simp_all add: data_def v w resulting_def buffer_def new_window_def)
  from toggle_requests_negate_current [of window_model_minimized 1] v
  show ?thesis
    by (simp add: d q) (simp add: w)
qed

text \<open>
  C5. For a row that is negative or at least \<open>rowCount\<close>, each of the eight request
  operations returns the model as it was: no request is forwarded, no notification is
  emitted, and no item changes.
\<close>

theorem requests_out_of_range_ignored:
  "row < 0 \<or> rowCount m \<le> row \<longrightarrow>
     requestActivate row m = m \<and> requestClose row m = m \<and> requestMove row m = m
     \<and> requestResize row m = m \<and> requestVirtualDesktop row desktop m = m
     \<and> requestToggleMinimized row m = m \<and> requestToggleMaximized row m = m
     \<and> requestToggleShaded row m = m"
  by (auto simp: row_valid_def requestActivate_def requestClose_def requestMove_def
      requestResize_def requestVirtualDesktop_def requestToggleMinimized_def
      requestToggleMaximized_def requestToggleShaded_def)

theorem requests_out_of_range_ignored_witness:
  "rowCount window_model_example = 2
   \<and> requestActivate (- 1) window_model_example = window_model_example
   \<and> requestVirtualDesktop (- 1) 1 window_model_example = window_model_example
   \<and> requestToggleMinimized (- 1) window_model_example = window_model_example
   \<and> requestClose 2 window_model_example = window_model_example
   \<and> requestMove 2 window_model_example = window_model_example
   \<and> requestResize 2 window_model_example = window_model_example
   \<and> requestToggleMaximized 2 window_model_example = window_model_example
   \<and> requestToggleShaded 2 window_model_example = window_model_example
   \<and> requests (requestClose 2 window_model_example) = []"
proof -
  have c: "rowCount window_model_example = 2"
    by (simp add: rowCount_def window_model_example_def)
  have q: "requests window_model_example = []"
    by (simp add: window_model_example_def)
  from requests_out_of_range_ignored [of "- 1" window_model_example 1]
    requests_out_of_range_ignored [of 2 window_model_example 1] c q
  show ?thesis by simp
qed

end
